theory Spec2Isabelle
  imports Complex_Main "HOL-Library.Word"
begin

unbundle bit_operations_syntax

section \<open>Image background replacement on Amazon Bedrock: the outpainting client\<close>

text \<open>
  A shallow embedding of \<^verbatim>\<open>app.py\<close>: the model invoker \<^verbatim>\<open>generate_image\<close>, the request
  builder and persistence step \<^verbatim>\<open>prepare_outpainting_request_with_mask_prompt\<close>, and the
  submit handling of \<^verbatim>\<open>main\<close>. Python exceptions are values of the type \<open>exn\<close>; a function
  that may raise returns \<open>exn + 'a\<close> with \<open>Inl\<close> for the raised exception. The file system,
  the log and the requests sent to the remote service are fields of an explicit world
  state that every effectful function takes and returns.
\<close>

subsection \<open>Exceptions\<close>

text \<open>
  \<open>ClientError\<close> is botocore's exception and carries the text that the handler reads as
  \<^verbatim>\<open>err.response["Error"]["Message"]\<close>; \<open>ImageError\<close> is the class declared in the source
  and carries its message. The remaining constructors are the built-in exceptions that the
  statements of \<^verbatim>\<open>generate_image\<close> raise on a malformed response, and \<open>OtherError\<close> stands
  for any exception of another class raised by a library (a connection failure of
  botocore, an unreadable image in PIL).
\<close>

datatype exn =
    ClientError string
  | ImageError string
  | TypeError
  | IndexError
  | KeyError
  | AttributeError
  | UnicodeEncodeError
  | BinasciiError
  | FileNotFoundError
  | OtherError string

subsection \<open>Bytes and base64\<close>

type_synonym byte = "8 word"
type_synonym bytes = "byte list"

text \<open>
  The standard base64 alphabet of RFC 4648, as the tables of Python's \<^verbatim>\<open>binascii\<close> have it.
  An ASCII \<^verbatim>\<open>bytes\<close> object and the \<^verbatim>\<open>str\<close> it decodes to are both the list of their
  characters.
\<close>

definition b64_alphabet :: string where
  "b64_alphabet =
     ''ABCDEFGHIJKLMNOPQRSTUVWXYZabcdefghijklmnopqrstuvwxyz0123456789+/''"

definition table_b2a_base64 :: "byte \<Rightarrow> char" where
  "table_b2a_base64 i = b64_alphabet ! unat i"

definition table_a2b_base64 :: "char \<Rightarrow> byte option" where
  "table_a2b_base64 ch = map_of (zip b64_alphabet (map of_nat [0..<64])) ch"

text \<open>
  \<^verbatim>\<open>base64.b64encode\<close>: three bytes become four characters; a rest of one byte becomes two
  characters and \<^verbatim>\<open>==\<close>, a rest of two bytes three characters and \<^verbatim>\<open>=\<close>.
\<close>

fun b64encode :: "bytes \<Rightarrow> string" where
  "b64encode [] = []"
| "b64encode [a] =
     [table_b2a_base64 (drop_bit 2 a),
      table_b2a_base64 (push_bit 4 (a AND 3)),
      CHR ''='', CHR ''='']"
| "b64encode [a, b] =
     [table_b2a_base64 (drop_bit 2 a),
      table_b2a_base64 (push_bit 4 (a AND 3) OR drop_bit 4 b),
      table_b2a_base64 (push_bit 2 (b AND 15)),
      CHR ''='']"
| "b64encode (a # b # c # rest) =
     [table_b2a_base64 (drop_bit 2 a),
      table_b2a_base64 (push_bit 4 (a AND 3) OR drop_bit 4 b),
      table_b2a_base64 (push_bit 2 (b AND 15) OR drop_bit 6 c),
      table_b2a_base64 (c AND 63)] @ b64encode rest"

text \<open>
  \<^verbatim>\<open>base64.b64decode\<close> without validation is \<^verbatim>\<open>binascii.a2b_base64\<close> in its non-strict
  mode: a loop over the characters with the position in the current group of four
  (\<open>quad_pos\<close>), the bits left over from the previous character (\<open>leftchar\<close>) and the number
  of padding characters seen in a row (\<open>pads\<close>). A character outside the alphabet is
  skipped; a complete padding sequence ends the input; data that stops inside a group
  raises \<^verbatim>\<open>binascii.Error\<close>.
\<close>

fun a2b_base64 :: "nat \<Rightarrow> byte \<Rightarrow> nat \<Rightarrow> string \<Rightarrow> bytes \<Rightarrow> exn + bytes" where
  "a2b_base64 quad_pos leftchar pads [] bin_data =
     (if quad_pos \<noteq> 0 then Inl BinasciiError else Inr bin_data)"
| "a2b_base64 quad_pos leftchar pads (ch # rest) bin_data =
     (if ch = CHR ''='' then
        (if 2 \<le> quad_pos then
           (if 4 \<le> quad_pos + (pads + 1) then Inr bin_data
            else a2b_base64 quad_pos leftchar (pads + 1) rest bin_data)
         else a2b_base64 quad_pos leftchar pads rest bin_data)
      else
        (case table_a2b_base64 ch of
           None \<Rightarrow> a2b_base64 quad_pos leftchar pads rest bin_data
         | Some this_ch \<Rightarrow>
             (if quad_pos = 0 then a2b_base64 1 this_ch 0 rest bin_data
              else if quad_pos = 1 then
                a2b_base64 2 (this_ch AND 15) 0 rest
                  (bin_data @ [push_bit 2 leftchar OR drop_bit 4 this_ch])
              else if quad_pos = 2 then
                a2b_base64 3 (this_ch AND 3) 0 rest
                  (bin_data @ [push_bit 4 leftchar OR drop_bit 2 this_ch])
              else
                a2b_base64 0 0 0 rest (bin_data @ [push_bit 6 leftchar OR this_ch]))))"

definition b64decode :: "string \<Rightarrow> exn + bytes" where
  "b64decode s = a2b_base64 0 0 0 s []"

subsection \<open>Python values\<close>

text \<open>
  The values that \<^verbatim>\<open>json.loads\<close> returns and \<^verbatim>\<open>json.dumps\<close> accepts. \<open>JNull\<close> is Python's
  \<^verbatim>\<open>None\<close>; a \<^verbatim>\<open>dict\<close> is an association list in insertion order, looked up with
  \<open>map_of\<close>; a \<^verbatim>\<open>float\<close> is the real number it denotes (the program only passes floats
  on and never computes with them); a \<^verbatim>\<open>str\<close> is the list of the bytes of its UTF-8 form.
\<close>

datatype json =
    JNull
  | JBool bool
  | JInt int
  | JFloat real
  | JStr string
  | JArr "json list"
  | JObj "(string \<times> json) list"

text \<open>\<^verbatim>\<open>v.get(k)\<close>: only a dict has the method; a missing key gives \<^verbatim>\<open>None\<close>.\<close>

fun py_get :: "json \<Rightarrow> string \<Rightarrow> exn + json" where
  "py_get (JObj kvs) k = Inr (case map_of kvs k of None \<Rightarrow> JNull | Some v \<Rightarrow> v)"
| "py_get _ k = Inl AttributeError"

text \<open>The first code point of a non-empty \<^verbatim>\<open>str\<close>: its first byte and the continuation
  bytes (\<^verbatim>\<open>10xxxxxx\<close>) that follow it.\<close>

definition first_code_point :: "string \<Rightarrow> string" where
  "first_code_point s =
     hd s # takeWhile (\<lambda>c. 128 \<le> (of_char c :: nat) \<and> (of_char c :: nat) < 192) (tl s)"

text \<open>
  \<^verbatim>\<open>v[0]\<close>: \<^verbatim>\<open>None\<close>, booleans and numbers are not subscriptable (\<^verbatim>\<open>TypeError\<close>); an
  empty list or string has no index 0 (\<^verbatim>\<open>IndexError\<close>); a dict parsed from JSON has
  string keys only, so the key \<^verbatim>\<open>0\<close> is missing (\<^verbatim>\<open>KeyError\<close>).
\<close>

fun py_index0 :: "json \<Rightarrow> exn + json" where
  "py_index0 (JArr []) = Inl IndexError"
| "py_index0 (JArr (x # xs)) = Inr x"
| "py_index0 (JStr s) = (if s = [] then Inl IndexError else Inr (JStr (first_code_point s)))"
| "py_index0 (JObj kvs) = Inl KeyError"
| "py_index0 _ = Inl TypeError"

definition is_ascii :: "string \<Rightarrow> bool" where
  "is_ascii s = list_all (\<lambda>c. (of_char c :: nat) < 128) s"

text \<open>\<^verbatim>\<open>v.encode("ascii")\<close>: only a \<^verbatim>\<open>str\<close> has the method, and a code point above 127
  raises \<^verbatim>\<open>UnicodeEncodeError\<close>.\<close>

fun py_encode_ascii :: "json \<Rightarrow> exn + string" where
  "py_encode_ascii (JStr s) = (if is_ascii s then Inr s else Inl UnicodeEncodeError)"
| "py_encode_ascii _ = Inl AttributeError"

text \<open>\<^verbatim>\<open>str\<close> of a Python \<^verbatim>\<open>int\<close>: its decimal digits, with a sign when negative.\<close>

function str_nat :: "nat \<Rightarrow> string" where
  "str_nat n =
     (if n < 10 then [''0123456789'' ! n]
      else str_nat (n div 10) @ [''0123456789'' ! (n mod 10)])"
  by pat_completeness auto
termination
  by (relation "measure (\<lambda>n. n)") auto

definition str_int :: "int \<Rightarrow> string" where
  "str_int i = (if i < 0 then CHR ''-'' # str_nat (nat (- i)) else str_nat (nat i))"

subsection \<open>The world and the external collaborators\<close>

datatype log_level = INFO | ERROR

text \<open>What Streamlit shows: the preview of an upload (\<^verbatim>\<open>st.image\<close> and \<^verbatim>\<open>st.text\<close> of
  lines 186 to 192), an \<^verbatim>\<open>st.error\<close> message, and \<^verbatim>\<open>display_response\<close> with the source
  path and the generated path (the elapsed time it prints is wall-clock time and is left
  out).\<close>

datatype ui_event =
    UploadPreview string
  | StError string
  | DisplayResponse string string

text \<open>
  The state the program reads and writes: the files by path, the records handed to the
  logger, the request bodies passed to \<^verbatim>\<open>invoke_model\<close> in order, and what the page shows.
\<close>

record world =
  files :: "string \<rightharpoonup> bytes"
  logged :: "(log_level \<times> string) list"
  requests :: "string list"
  ui :: "ui_event list"

text \<open>
  The libraries and the service, which are not part of the repository, are parameters:
  \<^item> \<open>invoke_model\<close>: creating the client, \<^verbatim>\<open>invoke_model\<close>, reading the body and
    \<^verbatim>\<open>json.loads\<close>; it gives the parsed response body or the exception raised;
  \<^item> \<open>json_dumps\<close>: \<^verbatim>\<open>json.dumps\<close>;
  \<^item> \<open>py_repr\<close>: \<^verbatim>\<open>str\<close> of a value that is neither a string, \<^verbatim>\<open>None\<close>, a boolean
    nor an integer;
  \<^item> \<open>image_open\<close>, \<open>width_of\<close>, \<open>height_of\<close>: \<^verbatim>\<open>PIL.Image.open\<close> on the bytes
    of a file and the size of the image;
  \<^item> \<open>image_save\<close>: \<^verbatim>\<open>image.save(path)\<close>, which may change the files and may raise;
  \<^item> \<open>file_write\<close>: \<^verbatim>\<open>open(path, "wb")\<close> followed by \<^verbatim>\<open>f.write(data)\<close>, which may change
    the files and may raise (the directory is missing, the path names a directory, the
    disk is full): it gives the exception raised, if any, and the files it leaves;
  \<^item> \<open>time_now\<close>: \<^verbatim>\<open>int(time.time())\<close>, the Unix time in seconds.
\<close>

record 'img env =
  invoke_model :: "string \<Rightarrow> exn + json"
  json_dumps :: "json \<Rightarrow> string"
  py_repr :: "json \<Rightarrow> string"
  image_open :: "bytes \<Rightarrow> exn + 'img"
  width_of :: "'img \<Rightarrow> int"
  height_of :: "'img \<Rightarrow> int"
  image_save :: "'img \<Rightarrow> string \<Rightarrow> (string \<rightharpoonup> bytes) \<Rightarrow> exn option \<times> (string \<rightharpoonup> bytes)"
  file_write :: "string \<Rightarrow> bytes \<Rightarrow> (string \<rightharpoonup> bytes) \<Rightarrow> exn option \<times> (string \<rightharpoonup> bytes)"
  time_now :: int

text \<open>The value of a replacement field of an f-string: \<^verbatim>\<open>str(v)\<close>.\<close>

definition py_str :: "'img env \<Rightarrow> json \<Rightarrow> string" where
  "py_str env v =
     (case v of
        JStr s \<Rightarrow> s
      | JNull \<Rightarrow> ''None''
      | JBool b \<Rightarrow> (if b then ''True'' else ''False'')
      | JInt i \<Rightarrow> str_int i
      | _ \<Rightarrow> py_repr env v)"

subsection \<open>The model invoker\<close>

definition MODEL_ID :: string where
  "MODEL_ID = ''amazon.titan-image-generator-v2:0''"

text \<open>
  Lines 55 to 62 of \<^verbatim>\<open>generate_image\<close>, which have no effect but raising: the first entry
  of \<^verbatim>\<open>images\<close> is taken, encoded as ASCII and decoded from base64, and only then is the
  \<^verbatim>\<open>error\<close> field read.
\<close>

definition decode_response :: "'img env \<Rightarrow> json \<Rightarrow> exn + bytes" where
  "decode_response env response_body =
     (case py_get response_body ''images'' of
        Inl e \<Rightarrow> Inl e
      | Inr images \<Rightarrow>
     (case py_index0 images of
        Inl e \<Rightarrow> Inl e
      | Inr base64_image \<Rightarrow>
     (case py_encode_ascii base64_image of
        Inl e \<Rightarrow> Inl e
      | Inr base64_bytes \<Rightarrow>
     (case b64decode base64_bytes of
        Inl e \<Rightarrow> Inl e
      | Inr image_bytes \<Rightarrow>
     (case py_get response_body ''error'' of
        Inl e \<Rightarrow> Inl e
      | Inr finish_reason \<Rightarrow>
          if finish_reason \<noteq> JNull
          then Inl (ImageError (''Image generation error. Error is '' @ py_str env finish_reason))
          else Inr image_bytes)))))"

definition generate_image :: "'img env \<Rightarrow> world \<Rightarrow> string \<Rightarrow> (exn + bytes) \<times> world" where
  "generate_image env w body =
     (let w1 = w\<lparr>logged := logged w @
                   [(INFO, ''Generating image with Amazon Titan Image Generator G1 model ''
                            @ MODEL_ID)],
                 requests := requests w @ [body]\<rparr>
      in case invoke_model env body of
           Inl e \<Rightarrow> (Inl e, w1)
         | Inr response_body \<Rightarrow>
             (case decode_response env response_body of
                Inl e \<Rightarrow> (Inl e, w1)
              | Inr image_bytes \<Rightarrow>
                  (Inr image_bytes,
                   w1\<lparr>logged := logged w1 @
                     [(INFO, ''Successfully generated image with Amazon Titan Image Generator G1 v2 model ''
                             @ MODEL_ID)]\<rparr>)))"

subsection \<open>The request builder and the persistence of the result\<close>

text \<open>The dict literal of lines 108 to 124.\<close>

definition outpainting_request ::
  "string \<Rightarrow> string \<Rightarrow> string \<Rightarrow> string \<Rightarrow> string \<Rightarrow> real \<Rightarrow> int \<Rightarrow> json" where
  "outpainting_request input_image mask_prompt positive_prompt negative_prompt
       outpainting_mode cfg_scale seed =
     JObj [(''taskType'', JStr ''OUTPAINTING''),
           (''outPaintingParams'',
              JObj [(''text'', JStr positive_prompt),
                    (''negativeText'', JStr negative_prompt),
                    (''image'', JStr input_image),
                    (''maskPrompt'', JStr mask_prompt),
                    (''outPaintingMode'', JStr outpainting_mode)]),
           (''imageGenerationConfig'',
              JObj [(''numberOfImages'', JInt 1),
                    (''cfgScale'', JFloat cfg_scale),
                    (''seed'', JInt seed)])]"

text \<open>
  Lines 100 to 125: the source image is read and encoded and the body is serialised. The
  world is returned as it was: these lines only read (\<^verbatim>\<open>logging.basicConfig\<close> does nothing
  once the module has configured the root logger at import).
\<close>

definition build_request_body ::
  "'img env \<Rightarrow> world \<Rightarrow> string \<Rightarrow> string \<Rightarrow> string \<Rightarrow> string \<Rightarrow> string \<Rightarrow> real \<Rightarrow> int
     \<Rightarrow> (exn + string) \<times> world" where
  "build_request_body env w source_image_path mask_prompt positive_prompt negative_prompt
       outpainting_mode cfg_scale seed =
     (case files w source_image_path of
        None \<Rightarrow> (Inl FileNotFoundError, w)
      | Some image_file \<Rightarrow>
          (let input_image = b64encode image_file;
               body = json_dumps env
                        (outpainting_request input_image mask_prompt positive_prompt
                           negative_prompt outpainting_mode cfg_scale seed)
           in (Inr body, w)))"

text \<open>The body of the \<^verbatim>\<open>try\<close> statement, lines 100 to 133.\<close>

definition try_body ::
  "'img env \<Rightarrow> world \<Rightarrow> string \<Rightarrow> string \<Rightarrow> string \<Rightarrow> string \<Rightarrow> string \<Rightarrow> real \<Rightarrow> int
     \<Rightarrow> (exn + string) \<times> world" where
  "try_body env w source_image_path mask_prompt positive_prompt negative_prompt
       outpainting_mode cfg_scale seed =
     (case build_request_body env w source_image_path mask_prompt positive_prompt
             negative_prompt outpainting_mode cfg_scale seed of
        (Inl e, w0) \<Rightarrow> (Inl e, w0)
      | (Inr body, w0) \<Rightarrow>
     (case generate_image env w0 body of
        (Inl e, w1) \<Rightarrow> (Inl e, w1)
      | (Inr image_bytes, w1) \<Rightarrow>
     (case image_open env image_bytes of
        Inl e \<Rightarrow> (Inl e, w1)
      | Inr image_0 \<Rightarrow>
          (let epoch_time = time_now env;
               generated_image_path =
                 ''output/outpainting_'' @ str_int seed @ ''_'' @ str_int epoch_time @ ''.jpg'';
               (raised, fs) = image_save env image_0 generated_image_path (files w1);
               w2 = w1\<lparr>files := fs\<rparr>
           in case raised of
                Some e \<Rightarrow> (Inl e, w2)
              | None \<Rightarrow>
                  (Inr generated_image_path,
                   w2\<lparr>logged := logged w2 @
                     [(INFO, ''Generated image saved to '' @ generated_image_path)]\<rparr>)))))"

text \<open>
  The function with its two handlers. A caught exception is logged and the function falls
  off its end, returning \<^verbatim>\<open>None\<close>; an exception of any other class propagates.
\<close>

definition prepare_outpainting_request_with_mask_prompt ::
  "'img env \<Rightarrow> world \<Rightarrow> string \<Rightarrow> string \<Rightarrow> string \<Rightarrow> string \<Rightarrow> string \<Rightarrow> real \<Rightarrow> int
     \<Rightarrow> (exn + string option) \<times> world" where
  "prepare_outpainting_request_with_mask_prompt env w source_image_path mask_prompt
       positive_prompt negative_prompt outpainting_mode cfg_scale seed =
     (case try_body env w source_image_path mask_prompt positive_prompt negative_prompt
             outpainting_mode cfg_scale seed of
        (Inr generated_image_path, w') \<Rightarrow> (Inr (Some generated_image_path), w')
      | (Inl (ClientError message), w') \<Rightarrow>
          (Inr None,
           w'\<lparr>logged := logged w' @ [(ERROR, ''A client error occurred: '' @ message)]\<rparr>)
      | (Inl (ImageError err), w') \<Rightarrow>
          (Inr None,
           w'\<lparr>logged := logged w' @ [(ERROR, ''A image error occurred: '' @ err)]\<rparr>)
      | (Inl e, w') \<Rightarrow> (Inl e, w'))"

subsection \<open>The form and its submission\<close>

record upload =
  upload_name :: string
  upload_value :: bytes

record form =
  img :: "upload option"
  form_mask_prompt :: string
  form_positive_prompt :: string
  form_negative_prompt :: string
  form_cfg_scale :: real
  form_seed :: int
  form_outpainting_mode :: string
  submitted :: bool

text \<open>
  The part of \<^verbatim>\<open>main\<close> that acts on the form, lines 159 to 276. An uploaded image is
  opened and measured, its preview is shown, and its bytes are written under \<^verbatim>\<open>./tmp\<close>
  (lines 193 to 196); an exception raised by \<^verbatim>\<open>Image.open\<close> or by the write ends
  \<^verbatim>\<open>main\<close> there, before the form is read. Then the three \<^verbatim>\<open>if\<close> statements run one
  after the other. Without an upload \<^verbatim>\<open>image_width\<close> and \<^verbatim>\<open>image_height\<close> keep their
  initial value 0 and \<^verbatim>\<open>source_image_path\<close> is unbound; it stands here as the empty path,
  which no branch reads. \<^verbatim>\<open>if generated_image_path:\<close> is false on \<^verbatim>\<open>None\<close> and on the
  empty string.
\<close>

definition main :: "'img env \<Rightarrow> world \<Rightarrow> form \<Rightarrow> (exn + unit) \<times> world" where
  "main env w fm =
     (case (case img fm of
              None \<Rightarrow> (Inr (0, 0, []), w)
            | Some up \<Rightarrow>
                (case image_open env (upload_value up) of
                   Inl e \<Rightarrow> (Inl e, w)
                 | Inr image_0 \<Rightarrow>
                     (let w0 = w\<lparr>ui := ui w @ [UploadPreview (upload_name up)]\<rparr>;
                          image_bytes = upload_value up;
                          source_image_path = ''./tmp/'' @ upload_name up;
                          (raised, fs) = file_write env source_image_path image_bytes (files w0);
                          w1 = w0\<lparr>files := fs\<rparr>
                      in case raised of
                           Some e \<Rightarrow> (Inl e, w1)
                         | None \<Rightarrow>
                             (Inr (width_of env image_0, height_of env image_0,
                                   source_image_path), w1)))) of
        (Inl e, w1) \<Rightarrow> (Inl e, w1)
      | (Inr (image_width, image_height, source_image_path), w1) \<Rightarrow>
     (case (if submitted fm \<and> img fm \<noteq> None \<and> image_height \<le> 1408 \<and> image_width \<le> 1408
            then
              (case prepare_outpainting_request_with_mask_prompt env w1 source_image_path
                      (form_mask_prompt fm) (form_positive_prompt fm) (form_negative_prompt fm)
                      (form_outpainting_mode fm) (form_cfg_scale fm) (form_seed fm) of
                 (Inl e, w2) \<Rightarrow> (Inl e, w2)
               | (Inr generated_image_path, w2) \<Rightarrow>
                   (if generated_image_path \<noteq> None \<and> generated_image_path \<noteq> Some []
                    then (Inr (),
                          w2\<lparr>ui := ui w2 @
                            [DisplayResponse source_image_path (the generated_image_path)]\<rparr>)
                    else (Inr (),
                          w2\<lparr>logged := logged w2 @
                            [(ERROR, ''Failed to get a valid response from the model.'')]\<rparr>)))
            else (Inr (), w1)) of
        (Inl e, w2) \<Rightarrow> (Inl e, w2)
      | (Inr u, w2) \<Rightarrow>
          (let w3 = (if submitted fm \<and> img fm \<noteq> None
                        \<and> (image_height > 1408 \<or> image_width > 1408)
                     then w2\<lparr>ui := ui w2 @
                       [StError ''Please upload an image with height and width less than or equal to 1408 pixels.'']\<rparr>
                     else w2);
               w4 = (if submitted fm \<and> img fm = None
                     then w3\<lparr>ui := ui w3 @ [StError ''Please upload an image file.'']\<rparr>
                     else w3)
           in (Inr (), w4))))"

text \<open>Reading a value along a path of keys.\<close>

fun get_path :: "json \<Rightarrow> string list \<Rightarrow> exn + json" where
  "get_path v [] = Inr v"
| "get_path v (k # ks) = (case py_get v k of Inl e \<Rightarrow> Inl e | Inr u \<Rightarrow> get_path u ks)"

subsection \<open>A concrete world and concrete collaborators\<close>

text \<open>
  An instance on which the functions can be run: the source image of two bytes is stored
  under \<^verbatim>\<open>./tmp/burger.jpg\<close>, the service answers every request with the given
  response, an image is the list of its bytes, and saving stores them under the path.
  Writing a file stores the bytes under the path, except under \<^verbatim>\<open>./tmp/\<close>, which is
  the directory: there \<^verbatim>\<open>open\<close> raises \<^verbatim>\<open>IsADirectoryError\<close> and the files stay as they
  were.
\<close>

definition empty_world :: world where
  "empty_world = \<lparr>files = Map.empty, logged = [], requests = [], ui = []\<rparr>"

definition sample_world :: world where
  "sample_world =
     \<lparr>files = [''./tmp/burger.jpg'' \<mapsto> [104, 105]], logged = [], requests = [], ui = []\<rparr>"

definition sample_env :: "(exn + json) \<Rightarrow> int \<Rightarrow> int \<Rightarrow> bytes env" where
  "sample_env response width height =
     \<lparr>invoke_model = (\<lambda>body. response),
      json_dumps = (\<lambda>v. ''{}''),
      py_repr = (\<lambda>v. ''?''),
      image_open = (\<lambda>data. if data = [] then Inl (OtherError ''cannot identify image file'')
                             else Inr data),
      width_of = (\<lambda>im. width),
      height_of = (\<lambda>im. height),
      image_save = (\<lambda>im path fs. (None, fs(path \<mapsto> im))),
      file_write = (\<lambda>path data fs. if path = ''./tmp/''
                                     then (Some (OtherError ''IsADirectoryError''), fs)
                                     else (None, fs(path \<mapsto> data))),
      time_now = 1700000000\<rparr>"

text \<open>An upload of that image and a submitted form.\<close>

definition sample_upload :: upload where
  "sample_upload = \<lparr>upload_name = ''burger.jpg'', upload_value = [104, 105]\<rparr>"

definition sample_form :: "upload option \<Rightarrow> form" where
  "sample_form up =
     \<lparr>img = up, form_mask_prompt = ''Cheeseburger'', form_positive_prompt = ''a park'',
      form_negative_prompt = ''people'', form_cfg_scale = 7, form_seed = 42,
      form_outpainting_mode = ''PRECISE'', submitted = True\<rparr>"

subsection \<open>Base64 round trip\<close>

lemma mask_numerals:
  "(3::byte) = mask 2" "(15::byte) = mask 4" "(63::byte) = mask 6"
  by (simp_all add: mask_eq_exp_minus_1)

lemma shift_arith:
  "2 \<le> n \<Longrightarrow> Suc (Suc (n - 2)) = n"
  "\<not> n < 4 \<Longrightarrow> Suc (Suc (n - 2)) = n"
  "\<not> n < 2 \<Longrightarrow> Suc (Suc (n - 2)) = n"
  "\<not> n < 4 \<Longrightarrow> 4 + (n - 4) = n"
  "\<not> n < 6 \<Longrightarrow> 4 + (n - 4) = n"
  for n :: nat
  by simp_all

lemma first_byte_restored:
  "push_bit 2 (drop_bit 2 (a::byte)) OR drop_bit 4 (push_bit 4 (a AND 3) OR drop_bit 4 (b::byte)) = a"
  unfolding mask_numerals
  apply (rule bit_word_eqI)
  apply (auto simp: bit_simps shift_arith)
   apply (rule ccontr, simp add: shift_arith)+
  done

lemma second_byte_restored:
  "push_bit 4 ((push_bit 4 (a AND 3) OR drop_bit 4 (b::byte)) AND 15)
     OR drop_bit 2 (push_bit 2 (b AND 15) OR drop_bit 6 (c::byte)) = b"
  unfolding mask_numerals
  apply (rule bit_word_eqI)
  apply (auto simp: bit_simps shift_arith)
   apply (rule ccontr, simp add: shift_arith)+
  done

lemma third_byte_restored:
  "push_bit 6 ((push_bit 2 (b AND 15) OR drop_bit 6 (c::byte)) AND 3) OR (c AND 63) = c"
  unfolding mask_numerals
  by (rule bit_word_eqI) (auto simp: bit_simps)

lemma first_byte_restored_last:
  "push_bit 2 (drop_bit 2 (a::byte)) OR drop_bit 4 (push_bit 4 (a AND 3)) = a"
  using first_byte_restored [of a 0] by simp

lemma second_byte_restored_last:
  "push_bit 4 ((push_bit 4 (a AND 3) OR drop_bit 4 (b::byte)) AND 15)
     OR drop_bit 2 (push_bit 2 (b AND 15)) = b"
  using second_byte_restored [of a b 0] by simp

lemma byte_less_256: "unat (a::byte) < 256"
  using unsigned_less [of a] by simp

lemma sextet_bounds:
  "unat (drop_bit 2 (a::byte)) < 64"
  "unat (push_bit 4 (a AND 3) OR drop_bit 4 (b::byte)) < 64"
  "unat (push_bit 2 (b AND 15) OR drop_bit 6 (c::byte)) < 64"
  "unat (c AND 63) < 64"
  "unat (push_bit 4 (a AND 3)) < 64"
  "unat (push_bit 2 (b AND 15)) < 64"
proof -
  have six: "unat (w::byte) < 64" if "\<And>n. 6 \<le> n \<Longrightarrow> \<not> bit w n" for w
  proof -
    have "take_bit 6 w = w"
    proof (rule bit_word_eqI)
      fix n
      show "bit (take_bit 6 w) n = bit w n"
        using that [of n] by (cases "n < 6") (auto simp: bit_simps)
    qed
    then have "unat w = unat (take_bit 6 w)" by simp
    also have "\<dots> = take_bit 6 (unat w)" by (simp add: unsigned_take_bit_eq)
    also have "\<dots> < 2 ^ 6" by (rule take_bit_nat_less_exp)
    finally show ?thesis by simp
  qed
  show "unat (drop_bit 2 a) < 64"
    by (rule six) (auto simp: bit_simps dest: bit_imp_le_length)
  show "unat (push_bit 4 (a AND 3) OR drop_bit 4 b) < 64"
    unfolding mask_numerals by (rule six) (auto simp: bit_simps dest: bit_imp_le_length)
  show "unat (push_bit 2 (b AND 15) OR drop_bit 6 c) < 64"
    unfolding mask_numerals by (rule six) (auto simp: bit_simps dest: bit_imp_le_length)
  show "unat (c AND 63) < 64"
    unfolding mask_numerals by (rule six) (auto simp: bit_simps)
  show "unat (push_bit 4 (a AND 3)) < 64"
    unfolding mask_numerals by (rule six) (auto simp: bit_simps)
  show "unat (push_bit 2 (b AND 15)) < 64"
    unfolding mask_numerals by (rule six) (auto simp: bit_simps)
qed

lemma length_b64_alphabet: "length b64_alphabet = 64"
  by (simp add: b64_alphabet_def)

lemma distinct_b64_alphabet: "distinct b64_alphabet"
  by (simp add: b64_alphabet_def)

lemma pad_not_in_alphabet: "CHR ''='' \<notin> set b64_alphabet"
  by (simp add: b64_alphabet_def)

lemma table_b2a_not_pad: "unat i < 64 \<Longrightarrow> table_b2a_base64 i \<noteq> CHR ''=''"
proof -
  assume "unat i < 64"
  then have "b64_alphabet ! unat i \<in> set b64_alphabet"
    by (intro nth_mem) (simp add: length_b64_alphabet)
  with pad_not_in_alphabet show ?thesis
    unfolding table_b2a_base64_def by metis
qed

lemma table_a2b_b2a: "unat i < 64 \<Longrightarrow> table_a2b_base64 (table_b2a_base64 i) = Some i"
proof -
  assume i: "unat i < 64"
  have "map_of (zip b64_alphabet (map of_nat [0..<64])) (b64_alphabet ! unat i)
          = Some ((map of_nat [0..<64] :: byte list) ! unat i)"
    by (rule map_of_zip_nth) (use i in \<open>simp_all add: length_b64_alphabet distinct_b64_alphabet\<close>)
  also have "(map of_nat [0..<64] :: byte list) ! unat i = i"
    using i by simp
  finally show ?thesis
    by (simp add: table_a2b_base64_def table_b2a_base64_def)
qed

lemma a2b_base64_quad:
  assumes "unat s0 < 64" "unat s1 < 64" "unat s2 < 64" "unat s3 < 64"
  shows "a2b_base64 0 leftchar pads
           (table_b2a_base64 s0 # table_b2a_base64 s1 # table_b2a_base64 s2
              # table_b2a_base64 s3 # rest) bin_data
         = a2b_base64 0 0 0 rest
             (bin_data @ [push_bit 2 s0 OR drop_bit 4 s1,
                          push_bit 4 (s1 AND 15) OR drop_bit 2 s2,
                          push_bit 6 (s2 AND 3) OR s3])"
  using assms by (simp add: table_a2b_b2a table_b2a_not_pad)

lemma a2b_base64_two_pads:
  assumes "unat s0 < 64" "unat s1 < 64"
  shows "a2b_base64 0 leftchar pads
           [table_b2a_base64 s0, table_b2a_base64 s1, CHR ''='', CHR ''=''] bin_data
         = Inr (bin_data @ [push_bit 2 s0 OR drop_bit 4 s1])"
  using assms by (simp add: table_a2b_b2a table_b2a_not_pad)

lemma a2b_base64_one_pad:
  assumes "unat s0 < 64" "unat s1 < 64" "unat s2 < 64"
  shows "a2b_base64 0 leftchar pads
           [table_b2a_base64 s0, table_b2a_base64 s1, table_b2a_base64 s2, CHR ''=''] bin_data
         = Inr (bin_data @ [push_bit 2 s0 OR drop_bit 4 s1,
                            push_bit 4 (s1 AND 15) OR drop_bit 2 s2])"
  using assms by (simp add: table_a2b_b2a table_b2a_not_pad)

lemma a2b_base64_b64encode:
  "a2b_base64 0 leftchar pads (b64encode bs) bin_data = Inr (bin_data @ bs)"
proof (induction bs arbitrary: leftchar pads bin_data rule: b64encode.induct)
  case 1
  show ?case by simp
next
  case (2 a)
  show ?case
    by (simp only: b64encode.simps a2b_base64_two_pads [OF sextet_bounds(1) sextet_bounds(5)]
        first_byte_restored_last)
next
  case (3 a b)
  show ?case
    by (simp only: b64encode.simps
        a2b_base64_one_pad [OF sextet_bounds(1) sextet_bounds(2) sextet_bounds(6)]
        first_byte_restored second_byte_restored_last)
next
  case (4 a b c rest)
  show ?case
    by (simp only: b64encode.simps append_Cons append_Nil append_assoc
        a2b_base64_quad [OF sextet_bounds(1) sextet_bounds(2) sextet_bounds(3) sextet_bounds(4)]
        first_byte_restored second_byte_restored third_byte_restored "4.IH")
qed

lemma b64decode_b64encode: "b64decode (b64encode bs) = Inr bs"
  by (simp add: b64decode_def a2b_base64_b64encode)

subsection \<open>The encoding is ASCII\<close>

lemma b64_alphabet_ascii: "c \<in> set b64_alphabet \<Longrightarrow> (of_char c :: nat) < 128"
  by (auto simp: b64_alphabet_def)

lemma table_b2a_ascii: "unat i < 64 \<Longrightarrow> (of_char (table_b2a_base64 i) :: nat) < 128"
  by (rule b64_alphabet_ascii) (simp add: table_b2a_base64_def length_b64_alphabet)

lemma is_ascii_b64encode: "is_ascii (b64encode bs)"
proof -
  have "(of_char ch :: nat) < 128" if "ch \<in> set (b64encode bs)" for ch
    using that
  proof (induction bs rule: b64encode.induct)
    case 1
    then show ?case by simp
  next
    case (2 a)
    then show ?case
      using table_b2a_ascii sextet_bounds by auto
  next
    case (3 a b)
    then show ?case
      using table_b2a_ascii sextet_bounds by auto
  next
    case (4 a b c rest)
    then show ?case
      using table_b2a_ascii sextet_bounds by auto
  qed
  then show ?thesis by (simp add: is_ascii_def list_all_iff)
qed

subsection \<open>What the model invoker returns and leaves behind\<close>

lemma fst_generate_image:
  "fst (generate_image env w body) =
     (case invoke_model env body of
        Inl e \<Rightarrow> Inl e
      | Inr response_body \<Rightarrow> decode_response env response_body)"
  by (simp add: generate_image_def Let_def split: sum.splits)

lemma files_generate_image: "files (snd (generate_image env w body)) = files w"
  by (simp add: generate_image_def Let_def split: sum.splits)

lemma requests_generate_image:
  "requests (snd (generate_image env w body)) = requests w @ [body]"
  by (simp add: generate_image_def Let_def split: sum.splits)

lemma ui_generate_image: "ui (snd (generate_image env w body)) = ui w"
  by (simp add: generate_image_def Let_def split: sum.splits)

text \<open>
  Claim C1. When the response body is an object whose \<^verbatim>\<open>images\<close> entry is a list that
  starts with a string of ASCII characters that base64-decodes, and whose \<^verbatim>\<open>error\<close> entry
  is absent or null, \<^verbatim>\<open>generate_image\<close> returns, and it returns exactly the decoding of
  that first entry.
\<close>

theorem generate_image_decodes_first_image:
  assumes "invoke_model env body = Inr (JObj kvs)"
    and "map_of kvs ''images'' = Some (JArr (JStr s # others))"
    and "is_ascii s"
    and "b64decode s = Inr image_bytes"
    and "map_of kvs ''error'' = None \<or> map_of kvs ''error'' = Some JNull"
  shows "fst (generate_image env w body) = Inr image_bytes"
  using assms by (auto simp: fst_generate_image decode_response_def)

theorem generate_image_decodes_first_image_witness:
  "b64decode ''aGk='' = Inr [104, 105] \<and>
   fst (generate_image (sample_env (Inr (JObj [(''images'', JArr [JStr ''aGk=''])])) 800 600)
          empty_world ''{}'') = Inr [104, 105]"
proof -
  have d: "b64decode ''aGk='' = Inr [104, 105]" by code_simp
  have a: "is_ascii ''aGk=''" by (simp add: is_ascii_def)
  have "fst (generate_image (sample_env (Inr (JObj [(''images'', JArr [JStr ''aGk=''])])) 800 600)
          empty_world ''{}'') = Inr [104, 105]"
    by (rule generate_image_decodes_first_image
          [where kvs = "[(''images'', JArr [JStr ''aGk=''])]" and s = "''aGk=''" and others = "[]"])
       (simp_all add: sample_env_def a d)
  with d show ?thesis by simp
qed

text \<open>
  Claim C10. When the \<^verbatim>\<open>images\<close> entry of the response body is absent, null or an empty
  list, \<^verbatim>\<open>generate_image\<close> raises \<^verbatim>\<open>TypeError\<close> (absent or null) or \<^verbatim>\<open>IndexError\<close> (empty
  list) whatever the \<^verbatim>\<open>error\<close> entry holds, so never \<^verbatim>\<open>ImageError\<close>; neither handler of
  \<^verbatim>\<open>prepare_outpainting_request_with_mask_prompt\<close> catches it, and the caller raises the
  same exception.
\<close>

theorem generate_image_without_images:
  assumes "invoke_model env body = Inr (JObj kvs)"
    and "map_of kvs ''images'' = None \<or> map_of kvs ''images'' = Some JNull
           \<or> map_of kvs ''images'' = Some (JArr [])"
    and "files w source_image_path = Some image_file"
    and "body = json_dumps env (outpainting_request (b64encode image_file) mask_prompt
                   positive_prompt negative_prompt outpainting_mode cfg_scale seed)"
  shows "fst (generate_image env w body) =
           Inl (if map_of kvs ''images'' = Some (JArr []) then IndexError else TypeError)
       \<and> fst (prepare_outpainting_request_with_mask_prompt env w source_image_path mask_prompt
                 positive_prompt negative_prompt outpainting_mode cfg_scale seed) =
           Inl (if map_of kvs ''images'' = Some (JArr []) then IndexError else TypeError)"
proof -
  let ?e = "if map_of kvs ''images'' = Some (JArr []) then IndexError else TypeError"
  have g: "fst (generate_image env w body) = Inl ?e"
    using assms(1,2) by (auto simp: fst_generate_image decode_response_def)
  then obtain w1 where g1: "generate_image env w body = (Inl ?e, w1)"
    by (cases "generate_image env w body") simp
  have "fst (prepare_outpainting_request_with_mask_prompt env w source_image_path mask_prompt
                 positive_prompt negative_prompt outpainting_mode cfg_scale seed) = Inl ?e"
    using assms(3) g1 [unfolded assms(4)]
    by (simp add: prepare_outpainting_request_with_mask_prompt_def try_body_def
        build_request_body_def)
  with g show ?thesis by simp
qed

theorem generate_image_without_images_witness:
  "fst (generate_image (sample_env (Inr (JObj [(''error'', JStr ''blocked'')])) 800 600)
          sample_world ''{}'') = Inl TypeError
   \<and> fst (prepare_outpainting_request_with_mask_prompt
            (sample_env (Inr (JObj [(''error'', JStr ''blocked'')])) 800 600)
            sample_world ''./tmp/burger.jpg'' ''Cheeseburger'' ''a park'' ''people'' ''PRECISE'' 7 42)
       = Inl TypeError"
proof -
  let ?env = "sample_env (Inr (JObj [(''error'', JStr ''blocked'')])) 800 600"
  have 1: "invoke_model ?env ''{}'' = Inr (JObj [(''error'', JStr ''blocked'')])"
    by (simp add: sample_env_def)
  have 2: "map_of [(''error'', JStr ''blocked'')] ''images'' = None
         \<or> map_of [(''error'', JStr ''blocked'')] ''images'' = Some JNull
         \<or> map_of [(''error'', JStr ''blocked'')] ''images'' = Some (JArr [])"
    by simp
  have 3: "files sample_world ''./tmp/burger.jpg'' = Some [104, 105]"
    by (simp add: sample_world_def)
  have 4: "''{}'' = json_dumps ?env (outpainting_request (b64encode [104, 105]) ''Cheeseburger''
                      ''a park'' ''people'' ''PRECISE'' 7 42)"
    by (simp only: sample_env_def env.simps)
  have 5: "map_of [(''error'', JStr ''blocked'')] ''images'' \<noteq> Some (JArr [])"
    by simp
  from generate_image_without_images [OF 1 2 3 4] show ?thesis
    by (simp only: 5 if_False)
qed

subsection \<open>The error field is read after the image is decoded\<close>

text \<open>
  When the first image decodes, a non-null \<^verbatim>\<open>error\<close> entry is raised as \<^verbatim>\<open>ImageError\<close>
  with the text of the service after the fixed prefix.
\<close>

lemma generate_image_error_after_decode:
  assumes "invoke_model env body = Inr (JObj kvs)"
    and "map_of kvs ''images'' = Some (JArr (JStr s # others))"
    and "is_ascii s"
    and "b64decode s = Inr image_bytes"
    and "map_of kvs ''error'' = Some finish_reason" and "finish_reason \<noteq> JNull"
  shows "fst (generate_image env w body) =
           Inl (ImageError (''Image generation error. Error is '' @ py_str env finish_reason))"
  using assms by (auto simp: fst_generate_image decode_response_def)

text \<open>
  Claim C3. A response body with a non-null \<^verbatim>\<open>error\<close> entry should make
  \<^verbatim>\<open>generate_image\<close> raise \<^verbatim>\<open>ImageError\<close> whether or not an image is present. On the
  response \<^verbatim>\<open>{"images": [], "error": "..."}\<close> the function raises \<^verbatim>\<open>IndexError\<close> at line 55
  instead, before line 59 reads the \<^verbatim>\<open>error\<close> entry.
\<close>

theorem error_with_empty_images_raises_IndexError:
  "fst (generate_image
          (sample_env
             (Inr (JObj [(''images'', JArr []),
                         (''error'', JStr ''The generated image has been blocked by our content filters.'')]))
             800 600)
          sample_world ''{}'') = Inl IndexError"
  by (simp add: fst_generate_image decode_response_def sample_env_def)

subsection \<open>The concrete instance, evaluated\<close>

lemma sample_file: "files sample_world ''./tmp/burger.jpg'' = Some [104, 105]"
  by (simp add: sample_world_def)

lemma sample_json_dumps: "json_dumps (sample_env response width height) v = ''{}''"
  by (simp add: sample_env_def)

lemma sample_decode: "b64decode ''aGk='' = Inr [104, 105]"
  by code_simp

lemma sample_encode: "b64encode [104, 105] = ''aGk=''"
  by code_simp

lemma sample_generate_ok:
  "fst (generate_image (sample_env (Inr (JObj [(''images'', JArr [JStr ''aGk=''])])) 800 600)
         sample_world ''{}'') = Inr [104, 105]"
  by (simp add: fst_generate_image decode_response_def sample_env_def is_ascii_def sample_decode)

lemma sample_generate_refused:
  "fst (generate_image (sample_env (Inl (ClientError ''connection refused'')) width height)
         w body) = Inl (ClientError ''connection refused'')"
  by (simp add: fst_generate_image sample_env_def)

lemma sample_generate_blocked:
  "fst (generate_image
         (sample_env (Inr (JObj [(''images'', JArr [JStr ''aGk='']), (''error'', JStr ''blocked'')]))
            800 600) w body)
   = Inl (ImageError ''Image generation error. Error is blocked'')"
  by (simp add: fst_generate_image decode_response_def sample_env_def is_ascii_def sample_decode
      py_str_def)

subsection \<open>The request builder\<close>

lemma requests_prepare:
  assumes "files w source_image_path = Some image_file"
  shows "requests (snd (prepare_outpainting_request_with_mask_prompt env w source_image_path
             mask_prompt positive_prompt negative_prompt outpainting_mode cfg_scale seed)) =
         requests w @ [json_dumps env (outpainting_request (b64encode image_file) mask_prompt
             positive_prompt negative_prompt outpainting_mode cfg_scale seed)]"
proof -
  let ?body = "json_dumps env (outpainting_request (b64encode image_file) mask_prompt
             positive_prompt negative_prompt outpainting_mode cfg_scale seed)"
  obtain r w1 where g: "generate_image env w ?body = (r, w1)"
    by (cases "generate_image env w ?body")
  have r1: "requests w1 = requests w @ [?body]"
    using requests_generate_image [of env w ?body] g by simp
  show ?thesis
    using assms g r1
    by (auto simp: prepare_outpainting_request_with_mask_prompt_def try_body_def
        build_request_body_def Let_def split: sum.splits prod.splits option.splits exn.splits)
qed

text \<open>
  Claim C2. Whatever the source image, the prompts, the mode, the guidance scale and the
  seed are, the body sent to the service is the serialisation of a payload whose
  \<^verbatim>\<open>taskType\<close> is \<^verbatim>\<open>"OUTPAINTING"\<close>, whose \<^verbatim>\<open>numberOfImages\<close> is 1 and whose \<^verbatim>\<open>image\<close> is a
  string of ASCII characters that base64-decodes to the bytes of the source image.
\<close>

theorem payload_task_type_and_image_round_trip:
  assumes "files w source_image_path = Some image_file"
  shows "requests (snd (prepare_outpainting_request_with_mask_prompt env w source_image_path
             mask_prompt positive_prompt negative_prompt outpainting_mode cfg_scale seed)) =
         requests w @ [json_dumps env (outpainting_request (b64encode image_file) mask_prompt
             positive_prompt negative_prompt outpainting_mode cfg_scale seed)]
       \<and> get_path (outpainting_request (b64encode image_file) mask_prompt positive_prompt
            negative_prompt outpainting_mode cfg_scale seed) [''taskType'']
          = Inr (JStr ''OUTPAINTING'')
       \<and> get_path (outpainting_request (b64encode image_file) mask_prompt positive_prompt
            negative_prompt outpainting_mode cfg_scale seed)
            [''imageGenerationConfig'', ''numberOfImages'']
          = Inr (JInt 1)
       \<and> get_path (outpainting_request (b64encode image_file) mask_prompt positive_prompt
            negative_prompt outpainting_mode cfg_scale seed) [''outPaintingParams'', ''image'']
          = Inr (JStr (b64encode image_file))
       \<and> py_encode_ascii (JStr (b64encode image_file)) = Inr (b64encode image_file)
       \<and> b64decode (b64encode image_file) = Inr image_file"
  using requests_prepare [OF assms]
  by (simp add: outpainting_request_def is_ascii_b64encode b64decode_b64encode)

theorem payload_task_type_and_image_round_trip_witness:
  "requests (snd (prepare_outpainting_request_with_mask_prompt
       (sample_env (Inl (ClientError ''connection refused'')) 800 600) sample_world
       ''./tmp/burger.jpg'' ''Cheeseburger'' ''a park'' ''people'' ''PRECISE'' 7 42)) = [''{}'']
   \<and> get_path (outpainting_request ''aGk='' ''Cheeseburger'' ''a park'' ''people'' ''PRECISE'' 7 42)
        [''taskType''] = Inr (JStr ''OUTPAINTING'')
   \<and> get_path (outpainting_request ''aGk='' ''Cheeseburger'' ''a park'' ''people'' ''PRECISE'' 7 42)
        [''imageGenerationConfig'', ''numberOfImages''] = Inr (JInt 1)
   \<and> get_path (outpainting_request ''aGk='' ''Cheeseburger'' ''a park'' ''people'' ''PRECISE'' 7 42)
        [''outPaintingParams'', ''image''] = Inr (JStr ''aGk='')
   \<and> py_encode_ascii (JStr ''aGk='') = Inr ''aGk=''
   \<and> b64decode ''aGk='' = Inr [104, 105]"
proof -
  have r: "requests sample_world @ [''{}''] = [''{}'']"
    by (simp add: sample_world_def)
  show ?thesis
    using payload_task_type_and_image_round_trip [OF sample_file,
        of "sample_env (Inl (ClientError ''connection refused'')) 800 600"
           "''Cheeseburger''" "''a park''" "''people''" "''PRECISE''" 7 42]
    unfolding sample_encode sample_json_dumps r .
qed

text \<open>
  Claim C7. Whatever the seed and the guidance scale are, and so for every seed between 0
  and 2147483647 and every guidance scale between 1.1 and 10.0, the body that
  \<^verbatim>\<open>prepare_outpainting_request_with_mask_prompt\<close> builds and sends to the service is the
  serialisation of a payload that holds, under \<^verbatim>\<open>imageGenerationConfig\<close>, the seed it was
  given as \<^verbatim>\<open>seed\<close> and the guidance scale it was given as \<^verbatim>\<open>cfgScale\<close>, neither rounded
  nor clamped.
\<close>

theorem payload_carries_seed_and_cfg_scale:
  assumes "files w source_image_path = Some image_file"
  shows "fst (build_request_body env w source_image_path mask_prompt positive_prompt
             negative_prompt outpainting_mode cfg_scale seed) =
         Inr (json_dumps env (outpainting_request (b64encode image_file) mask_prompt
             positive_prompt negative_prompt outpainting_mode cfg_scale seed))
       \<and> requests (snd (prepare_outpainting_request_with_mask_prompt env w source_image_path
             mask_prompt positive_prompt negative_prompt outpainting_mode cfg_scale seed)) =
         requests w @ [json_dumps env (outpainting_request (b64encode image_file) mask_prompt
             positive_prompt negative_prompt outpainting_mode cfg_scale seed)]
       \<and> get_path (outpainting_request (b64encode image_file) mask_prompt positive_prompt
            negative_prompt outpainting_mode cfg_scale seed) [''imageGenerationConfig'', ''seed'']
          = Inr (JInt seed)
       \<and> get_path (outpainting_request (b64encode image_file) mask_prompt positive_prompt
            negative_prompt outpainting_mode cfg_scale seed)
            [''imageGenerationConfig'', ''cfgScale'']
          = Inr (JFloat cfg_scale)"
  using requests_prepare [OF assms] assms
  by (simp add: outpainting_request_def build_request_body_def)

theorem payload_carries_seed_and_cfg_scale_witness:
  "fst (build_request_body (sample_env (Inl (ClientError ''connection refused'')) 800 600)
          sample_world ''./tmp/burger.jpg'' ''Cheeseburger'' ''a park'' ''people'' ''PRECISE''
          1.1 2147483647) = Inr ''{}''
   \<and> requests (snd (prepare_outpainting_request_with_mask_prompt
       (sample_env (Inl (ClientError ''connection refused'')) 800 600) sample_world
       ''./tmp/burger.jpg'' ''Cheeseburger'' ''a park'' ''people'' ''PRECISE'' 1.1 2147483647))
     = [''{}'']
   \<and> get_path (outpainting_request ''aGk='' ''Cheeseburger'' ''a park'' ''people'' ''PRECISE''
       1.1 2147483647) [''imageGenerationConfig'', ''seed''] = Inr (JInt 2147483647)
   \<and> get_path (outpainting_request ''aGk='' ''Cheeseburger'' ''a park'' ''people'' ''PRECISE''
       1.1 2147483647) [''imageGenerationConfig'', ''cfgScale''] = Inr (JFloat 1.1)"
proof -
  have r: "requests sample_world @ [''{}''] = [''{}'']"
    by (simp add: sample_world_def)
  show ?thesis
    using payload_carries_seed_and_cfg_scale [OF sample_file,
        of "sample_env (Inl (ClientError ''connection refused'')) 800 600"
           "''Cheeseburger''" "''a park''" "''people''" "''PRECISE''" "1.1" 2147483647]
    unfolding sample_encode sample_json_dumps r .
qed

text \<open>
  Claim C9. Building the request body is deterministic and has no effect: two runs on the
  same image bytes, prompts, mode, guidance scale and seed give the same body, in whatever
  world and under whatever path the image is stored, and each leaves its world as it was.
\<close>

theorem request_body_depends_only_on_inputs:
  assumes "files w1 path1 = Some image_file" and "files w2 path2 = Some image_file"
    and "json_dumps env1 = json_dumps env2"
  shows "fst (build_request_body env1 w1 path1 mask_prompt positive_prompt negative_prompt
                outpainting_mode cfg_scale seed)
         = fst (build_request_body env2 w2 path2 mask_prompt positive_prompt negative_prompt
                outpainting_mode cfg_scale seed)
       \<and> snd (build_request_body env1 w1 path1 mask_prompt positive_prompt negative_prompt
                outpainting_mode cfg_scale seed) = w1
       \<and> snd (build_request_body env2 w2 path2 mask_prompt positive_prompt negative_prompt
                outpainting_mode cfg_scale seed) = w2"
  using assms by (simp add: build_request_body_def)

theorem request_body_depends_only_on_inputs_witness:
  "fst (build_request_body (sample_env (Inl (ClientError ''connection refused'')) 800 600)
          sample_world ''./tmp/burger.jpg'' ''Cheeseburger'' ''a park'' ''people'' ''PRECISE'' 7 42)
   = fst (build_request_body (sample_env (Inr JNull) 1 1)
          (sample_world\<lparr>files := [''./tmp/copy.jpg'' \<mapsto> [104, 105]],
                         logged := [(INFO, ''earlier'')]\<rparr>)
          ''./tmp/copy.jpg'' ''Cheeseburger'' ''a park'' ''people'' ''PRECISE'' 7 42)
   \<and> snd (build_request_body (sample_env (Inl (ClientError ''connection refused'')) 800 600)
          sample_world ''./tmp/burger.jpg'' ''Cheeseburger'' ''a park'' ''people'' ''PRECISE'' 7 42)
     = sample_world
   \<and> snd (build_request_body (sample_env (Inr JNull) 1 1)
          (sample_world\<lparr>files := [''./tmp/copy.jpg'' \<mapsto> [104, 105]],
                         logged := [(INFO, ''earlier'')]\<rparr>)
          ''./tmp/copy.jpg'' ''Cheeseburger'' ''a park'' ''people'' ''PRECISE'' 7 42)
     = sample_world\<lparr>files := [''./tmp/copy.jpg'' \<mapsto> [104, 105]],
                     logged := [(INFO, ''earlier'')]\<rparr>"
proof (rule request_body_depends_only_on_inputs)
  show "files sample_world ''./tmp/burger.jpg'' = Some [104, 105]"
    by (rule sample_file)
  show "files (sample_world\<lparr>files := [''./tmp/copy.jpg'' \<mapsto> [104, 105]],
                 logged := [(INFO, ''earlier'')]\<rparr>) ''./tmp/copy.jpg'' = Some [104, 105]"
    by simp
  show "json_dumps (sample_env (Inl (ClientError ''connection refused'')) 800 600)
        = json_dumps (sample_env (Inr JNull) 1 1)"
    by (simp add: sample_env_def)
qed

subsection \<open>Failures of the remote call and the written file\<close>

text \<open>The function once the source image has been read, with the handlers applied to
  every place of the \<^verbatim>\<open>try\<close> body that can raise.\<close>

lemma prepare_with_file:
  assumes "files w source_image_path = Some image_file"
  shows "prepare_outpainting_request_with_mask_prompt env w source_image_path mask_prompt
           positive_prompt negative_prompt outpainting_mode cfg_scale seed =
         (case generate_image env w (json_dumps env (outpainting_request (b64encode image_file)
                 mask_prompt positive_prompt negative_prompt outpainting_mode cfg_scale seed)) of
            (Inl (ClientError message), w1) \<Rightarrow>
              (Inr None,
               w1\<lparr>logged := logged w1 @ [(ERROR, ''A client error occurred: '' @ message)]\<rparr>)
          | (Inl (ImageError err), w1) \<Rightarrow>
              (Inr None,
               w1\<lparr>logged := logged w1 @ [(ERROR, ''A image error occurred: '' @ err)]\<rparr>)
          | (Inl e, w1) \<Rightarrow> (Inl e, w1)
          | (Inr image_bytes, w1) \<Rightarrow>
              (case image_open env image_bytes of
                 Inl (ClientError message) \<Rightarrow>
                   (Inr None,
                    w1\<lparr>logged := logged w1 @ [(ERROR, ''A client error occurred: '' @ message)]\<rparr>)
               | Inl (ImageError err) \<Rightarrow>
                   (Inr None,
                    w1\<lparr>logged := logged w1 @ [(ERROR, ''A image error occurred: '' @ err)]\<rparr>)
               | Inl e \<Rightarrow> (Inl e, w1)
               | Inr image_0 \<Rightarrow>
                   (let generated_image_path =
                          ''output/outpainting_'' @ str_int seed @ ''_''
                            @ str_int (time_now env) @ ''.jpg'';
                        w2 = w1\<lparr>files :=
                               snd (image_save env image_0 generated_image_path (files w1))\<rparr>
                    in case fst (image_save env image_0 generated_image_path (files w1)) of
                         Some (ClientError message) \<Rightarrow>
                           (Inr None,
                            w2\<lparr>logged := logged w2 @
                              [(ERROR, ''A client error occurred: '' @ message)]\<rparr>)
                       | Some (ImageError err) \<Rightarrow>
                           (Inr None,
                            w2\<lparr>logged := logged w2 @
                              [(ERROR, ''A image error occurred: '' @ err)]\<rparr>)
                       | Some e \<Rightarrow> (Inl e, w2)
                       | None \<Rightarrow>
                           (Inr (Some generated_image_path),
                            w2\<lparr>logged := logged w2 @
                              [(INFO, ''Generated image saved to '' @ generated_image_path)]\<rparr>))))"
  using assms
  by (simp add: prepare_outpainting_request_with_mask_prompt_def try_body_def
      build_request_body_def Let_def
      split: sum.splits prod.splits option.splits exn.splits)

lemma sample_prepare_ok:
  "fst (prepare_outpainting_request_with_mask_prompt
         (sample_env (Inr (JObj [(''images'', JArr [JStr ''aGk=''])])) 800 600)
         sample_world ''./tmp/burger.jpg'' ''Cheeseburger'' ''a park'' ''people'' ''PRECISE'' 7 42)
   = Inr (Some ''output/outpainting_42_1700000000.jpg'')"
proof -
  let ?env = "sample_env (Inr (JObj [(''images'', JArr [JStr ''aGk=''])])) 800 600"
  obtain w1 where g: "generate_image ?env sample_world ''{}'' = (Inr [104, 105], w1)"
    using sample_generate_ok by (cases "generate_image ?env sample_world ''{}''") simp
  have o: "image_open ?env [104, 105] = Inr [104, 105]"
    by (simp add: sample_env_def)
  have s: "image_save ?env im path fs = (None, fs(path \<mapsto> im))" for im path fs
    by (simp add: sample_env_def)
  have t: "time_now ?env = 1700000000"
    by (simp add: sample_env_def)
  have p: "''output/outpainting_'' @ str_int 42 @ ''_'' @ str_int 1700000000 @ ''.jpg''
           = ''output/outpainting_42_1700000000.jpg''"
    by (simp add: str_int_def)
  show ?thesis
    by (simp only: prepare_with_file [OF sample_file] sample_json_dumps g o s t p Let_def
        prod.case sum.case option.case fst_conv snd_conv)
qed

lemma sample_prepare_ok_files:
  "files (snd (prepare_outpainting_request_with_mask_prompt
         (sample_env (Inr (JObj [(''images'', JArr [JStr ''aGk=''])])) 800 600)
         sample_world ''./tmp/burger.jpg'' ''Cheeseburger'' ''a park'' ''people'' ''PRECISE'' 7 42))
     ''output/outpainting_42_1700000000.jpg'' = Some [104, 105]"
proof -
  let ?env = "sample_env (Inr (JObj [(''images'', JArr [JStr ''aGk=''])])) 800 600"
  obtain w1 where g: "generate_image ?env sample_world ''{}'' = (Inr [104, 105], w1)"
    using sample_generate_ok by (cases "generate_image ?env sample_world ''{}''") simp
  have o: "image_open ?env [104, 105] = Inr [104, 105]"
    by (simp add: sample_env_def)
  have s: "image_save ?env im path fs = (None, fs(path \<mapsto> im))" for im path fs
    by (simp add: sample_env_def)
  have t: "time_now ?env = 1700000000"
    by (simp add: sample_env_def)
  have p: "''output/outpainting_'' @ str_int 42 @ ''_'' @ str_int 1700000000 @ ''.jpg''
           = ''output/outpainting_42_1700000000.jpg''"
    by (simp add: str_int_def)
  have "prepare_outpainting_request_with_mask_prompt ?env sample_world ''./tmp/burger.jpg''
          ''Cheeseburger'' ''a park'' ''people'' ''PRECISE'' 7 42 =
        (Inr (Some ''output/outpainting_42_1700000000.jpg''),
         w1\<lparr>files := (files w1)(''output/outpainting_42_1700000000.jpg'' \<mapsto> [104, 105]),
            logged := logged (w1\<lparr>files := (files w1)(''output/outpainting_42_1700000000.jpg''
                                   \<mapsto> [104, 105])\<rparr>) @
              [(INFO, ''Generated image saved to '' @ ''output/outpainting_42_1700000000.jpg'')]\<rparr>)"
    by (simp only: prepare_with_file [OF sample_file] sample_json_dumps g o s t p Let_def
        prod.case sum.case option.case fst_conv snd_conv)
  then show ?thesis by simp
qed

text \<open>
  Claim C4, as the handlers have it. When the remote call fails with botocore's
  \<^verbatim>\<open>ClientError\<close>, or the model reports an error with an image that decodes
  (\<^verbatim>\<open>ImageError\<close>), \<^verbatim>\<open>prepare_outpainting_request_with_mask_prompt\<close> catches the exception,
  logs one error record with the message, raises nothing and returns no image path.
\<close>

theorem remote_failures_are_caught:
  assumes "files w source_image_path = Some image_file"
    and "generate_image env w (json_dumps env (outpainting_request (b64encode image_file)
           mask_prompt positive_prompt negative_prompt outpainting_mode cfg_scale seed))
         = (Inl e, w1)"
    and "e = ClientError message \<or> e = ImageError message"
  shows "prepare_outpainting_request_with_mask_prompt env w source_image_path mask_prompt
           positive_prompt negative_prompt outpainting_mode cfg_scale seed =
         (Inr None,
          w1\<lparr>logged := logged w1 @
            [(ERROR, (if e = ClientError message then ''A client error occurred: ''
                      else ''A image error occurred: '') @ message)]\<rparr>)"
  using assms(2,3) by (auto simp: prepare_with_file [OF assms(1)])

theorem remote_failures_are_caught_witness:
  "prepare_outpainting_request_with_mask_prompt
     (sample_env (Inl (ClientError ''connection refused'')) 800 600) sample_world
     ''./tmp/burger.jpg'' ''Cheeseburger'' ''a park'' ''people'' ''PRECISE'' 7 42
   = (Inr None,
      (snd (generate_image (sample_env (Inl (ClientError ''connection refused'')) 800 600)
              sample_world ''{}''))
        \<lparr>logged := logged (snd (generate_image
                     (sample_env (Inl (ClientError ''connection refused'')) 800 600)
                     sample_world ''{}'')) @
           [(ERROR, ''A client error occurred: connection refused'')]\<rparr>)
   \<and> prepare_outpainting_request_with_mask_prompt
     (sample_env (Inr (JObj [(''images'', JArr [JStr ''aGk='']), (''error'', JStr ''blocked'')]))
        800 600) sample_world
     ''./tmp/burger.jpg'' ''Cheeseburger'' ''a park'' ''people'' ''PRECISE'' 7 42
   = (Inr None,
      (snd (generate_image
              (sample_env (Inr (JObj [(''images'', JArr [JStr ''aGk='']),
                                      (''error'', JStr ''blocked'')])) 800 600)
              sample_world ''{}''))
        \<lparr>logged := logged (snd (generate_image
                     (sample_env (Inr (JObj [(''images'', JArr [JStr ''aGk='']),
                                             (''error'', JStr ''blocked'')])) 800 600)
                     sample_world ''{}'')) @
           [(ERROR, ''A image error occurred: Image generation error. Error is blocked'')]\<rparr>)"
proof -
  let ?refused = "sample_env (Inl (ClientError ''connection refused'')) 800 600"
  let ?blocked = "sample_env (Inr (JObj [(''images'', JArr [JStr ''aGk='']),
                                         (''error'', JStr ''blocked'')])) 800 600"
  have g1: "generate_image ?refused sample_world
              (json_dumps ?refused (outpainting_request (b64encode [104, 105]) ''Cheeseburger''
                 ''a park'' ''people'' ''PRECISE'' 7 42))
            = (Inl (ClientError ''connection refused''),
               snd (generate_image ?refused sample_world ''{}''))"
    unfolding sample_json_dumps
    using sample_generate_refused [of 800 600 sample_world "''{}''"]
    by (cases "generate_image ?refused sample_world ''{}''") simp
  have g2: "generate_image ?blocked sample_world
              (json_dumps ?blocked (outpainting_request (b64encode [104, 105]) ''Cheeseburger''
                 ''a park'' ''people'' ''PRECISE'' 7 42))
            = (Inl (ImageError ''Image generation error. Error is blocked''),
               snd (generate_image ?blocked sample_world ''{}''))"
    unfolding sample_json_dumps
    using sample_generate_blocked [of sample_world "''{}''"]
    by (cases "generate_image ?blocked sample_world ''{}''") simp
  have c1: "ClientError ''connection refused'' = ClientError ''connection refused''
          \<or> ClientError ''connection refused'' = ImageError ''connection refused''"
    by simp
  have c2: "ImageError ''Image generation error. Error is blocked''
              = ClientError ''Image generation error. Error is blocked''
          \<or> ImageError ''Image generation error. Error is blocked''
              = ImageError ''Image generation error. Error is blocked''"
    by simp
  show ?thesis
    using remote_failures_are_caught [OF sample_file g1 c1]
      remote_failures_are_caught [OF sample_file g2 c2]
    by simp
qed

text \<open>
  Claim C4 speaks of every failure of the remote call. The two handlers name two classes
  only: botocore reports a connection that cannot be made as \<^verbatim>\<open>EndpointConnectionError\<close>,
  which is not a \<^verbatim>\<open>ClientError\<close>, and that exception leaves the function.
\<close>

theorem connection_failure_propagates:
  "prepare_outpainting_request_with_mask_prompt
     (sample_env (Inl (OtherError ''EndpointConnectionError'')) 800 600) sample_world
     ''./tmp/burger.jpg'' ''Cheeseburger'' ''a park'' ''people'' ''PRECISE'' 7 42
   = (Inl (OtherError ''EndpointConnectionError''),
      sample_world\<lparr>logged :=
          [(INFO, ''Generating image with Amazon Titan Image Generator G1 model ''
                  @ ''amazon.titan-image-generator-v2:0'')],
        requests := [''{}'']\<rparr>)"
proof -
  let ?env = "sample_env (Inl (OtherError ''EndpointConnectionError'')) 800 600"
  have i: "invoke_model ?env body = Inl (OtherError ''EndpointConnectionError'')" for body
    by (simp add: sample_env_def)
  have g: "generate_image ?env sample_world ''{}''
           = (Inl (OtherError ''EndpointConnectionError''),
              sample_world\<lparr>logged :=
                  [(INFO, ''Generating image with Amazon Titan Image Generator G1 model ''
                          @ ''amazon.titan-image-generator-v2:0'')],
                requests := [''{}'']\<rparr>)"
    by (simp add: generate_image_def i MODEL_ID_def sample_world_def)
  show ?thesis
    by (simp only: prepare_with_file [OF sample_file] sample_json_dumps g
        prod.case sum.case exn.case)
qed

text \<open>
  Claim C5. When \<^verbatim>\<open>generate_image\<close> fails, for whatever reason, the files are left as they
  were; the files change only after \<^verbatim>\<open>generate_image\<close> has returned the decoded bytes and
  these have been opened as an image.
\<close>

theorem no_write_without_decoded_image:
  assumes "files w source_image_path = Some image_file"
  shows "(\<forall>e. fst (generate_image env w (json_dumps env (outpainting_request
                  (b64encode image_file) mask_prompt positive_prompt negative_prompt
                  outpainting_mode cfg_scale seed))) = Inl e \<longrightarrow>
              files (snd (prepare_outpainting_request_with_mask_prompt env w source_image_path
                  mask_prompt positive_prompt negative_prompt outpainting_mode cfg_scale seed))
                = files w)
       \<and> (files (snd (prepare_outpainting_request_with_mask_prompt env w source_image_path
                  mask_prompt positive_prompt negative_prompt outpainting_mode cfg_scale seed))
            \<noteq> files w \<longrightarrow>
            (\<exists>image_bytes image_0.
                fst (generate_image env w (json_dumps env (outpainting_request
                  (b64encode image_file) mask_prompt positive_prompt negative_prompt
                  outpainting_mode cfg_scale seed))) = Inr image_bytes
              \<and> image_open env image_bytes = Inr image_0))"
proof -
  let ?body = "json_dumps env (outpainting_request (b64encode image_file) mask_prompt
                 positive_prompt negative_prompt outpainting_mode cfg_scale seed)"
  obtain r w1 where g: "generate_image env w ?body = (r, w1)"
    by (cases "generate_image env w ?body")
  have f1: "files w1 = files w"
    using files_generate_image [of env w ?body] g by simp
  show ?thesis
    using g f1
    by (auto simp: prepare_with_file [OF assms] Let_def
        split: sum.splits prod.splits option.splits exn.splits)
qed

theorem no_write_without_decoded_image_witness:
  "files (snd (prepare_outpainting_request_with_mask_prompt
       (sample_env (Inl (ClientError ''connection refused'')) 800 600) sample_world
       ''./tmp/burger.jpg'' ''Cheeseburger'' ''a park'' ''people'' ''PRECISE'' 7 42))
     = files sample_world
   \<and> files (snd (prepare_outpainting_request_with_mask_prompt
       (sample_env (Inr (JObj [(''images'', JArr [JStr ''aGk=''])])) 800 600) sample_world
       ''./tmp/burger.jpg'' ''Cheeseburger'' ''a park'' ''people'' ''PRECISE'' 7 42))
     \<noteq> files sample_world
   \<and> (\<exists>image_bytes image_0.
         fst (generate_image (sample_env (Inr (JObj [(''images'', JArr [JStr ''aGk=''])])) 800 600)
                sample_world ''{}'') = Inr image_bytes
       \<and> image_open (sample_env (Inr (JObj [(''images'', JArr [JStr ''aGk=''])])) 800 600)
           image_bytes = Inr image_0)"
proof -
  let ?refused = "sample_env (Inl (ClientError ''connection refused'')) 800 600"
  let ?ok = "sample_env (Inr (JObj [(''images'', JArr [JStr ''aGk=''])])) 800 600"
  note refused = no_write_without_decoded_image [OF sample_file, of ?refused "''Cheeseburger''"
      "''a park''" "''people''" "''PRECISE''" 7 42, unfolded sample_json_dumps]
  note ok = no_write_without_decoded_image [OF sample_file, of ?ok "''Cheeseburger''"
      "''a park''" "''people''" "''PRECISE''" 7 42, unfolded sample_json_dumps]
  have a: "files (snd (prepare_outpainting_request_with_mask_prompt ?refused sample_world
       ''./tmp/burger.jpg'' ''Cheeseburger'' ''a park'' ''people'' ''PRECISE'' 7 42))
     = files sample_world"
    using refused [THEN conjunct1, rule_format, OF sample_generate_refused] .
  have "files sample_world ''output/outpainting_42_1700000000.jpg'' = None"
    by (simp add: sample_world_def)
  with sample_prepare_ok_files
  have b: "files (snd (prepare_outpainting_request_with_mask_prompt ?ok sample_world
       ''./tmp/burger.jpg'' ''Cheeseburger'' ''a park'' ''people'' ''PRECISE'' 7 42))
     \<noteq> files sample_world"
    by (metis option.distinct(1))
  from ok [THEN conjunct2, rule_format, OF b] a b show ?thesis by blast
qed

text \<open>
  Claim C8. A path returned by \<^verbatim>\<open>prepare_outpainting_request_with_mask_prompt\<close> is
  \<^verbatim>\<open>output/outpainting_<seed>_<epoch seconds>.jpg\<close>, with the seed of the request and the
  Unix time read before the image is saved, both in decimal.
\<close>

theorem generated_image_path_format:
  assumes "fst (prepare_outpainting_request_with_mask_prompt env w source_image_path mask_prompt
                  positive_prompt negative_prompt outpainting_mode cfg_scale seed)
           = Inr (Some generated_image_path)"
  shows "generated_image_path =
           ''output/outpainting_'' @ str_int seed @ ''_'' @ str_int (time_now env) @ ''.jpg''"
  using assms
  by (auto simp: prepare_outpainting_request_with_mask_prompt_def try_body_def
      build_request_body_def Let_def
      split: sum.splits prod.splits option.splits exn.splits)

theorem generated_image_path_format_witness:
  "fst (prepare_outpainting_request_with_mask_prompt
         (sample_env (Inr (JObj [(''images'', JArr [JStr ''aGk=''])])) 800 600)
         sample_world ''./tmp/burger.jpg'' ''Cheeseburger'' ''a park'' ''people'' ''PRECISE'' 7 42)
   = Inr (Some ''output/outpainting_42_1700000000.jpg'')
   \<and> ''output/outpainting_42_1700000000.jpg'' =
       ''output/outpainting_'' @ str_int 42 @ ''_''
         @ str_int (time_now (sample_env (Inr (JObj [(''images'', JArr [JStr ''aGk=''])])) 800 600))
         @ ''.jpg''"
  using sample_prepare_ok generated_image_path_format [OF sample_prepare_ok] by (rule conjI)

subsection \<open>Validation of a submission\<close>

lemma ui_prepare:
  "ui (snd (prepare_outpainting_request_with_mask_prompt env w source_image_path
             mask_prompt positive_prompt negative_prompt outpainting_mode cfg_scale seed)) = ui w"
proof (cases "files w source_image_path")
  case None
  then show ?thesis
    by (simp add: prepare_outpainting_request_with_mask_prompt_def try_body_def
        build_request_body_def)
next
  case (Some image_file)
  let ?body = "json_dumps env (outpainting_request (b64encode image_file) mask_prompt
             positive_prompt negative_prompt outpainting_mode cfg_scale seed)"
  obtain r w1 where g: "generate_image env w ?body = (r, w1)"
    by (cases "generate_image env w ?body")
  have u1: "ui w1 = ui w"
    using ui_generate_image [of env w ?body] g by simp
  show ?thesis
    using g u1
    by (auto simp: prepare_with_file [OF Some] Let_def
        split: sum.splits prod.splits option.splits exn.splits)
qed

text \<open>
  The write of the upload comes before the validation: when it raises, \<^verbatim>\<open>main\<close> ends with
  that exception, having shown the preview only, and no request is sent.
\<close>

lemma main_raises_when_upload_is_not_written:
  assumes "img fm = Some up" and "image_open env (upload_value up) = Inr image_0"
    and "file_write env (''./tmp/'' @ upload_name up) (upload_value up) (files w) = (Some e, fs)"
  shows "main env w fm =
           (Inl e, w\<lparr>files := fs, ui := ui w @ [UploadPreview (upload_name up)]\<rparr>)"
  using assms by (simp add: main_def Let_def)

text \<open>
  Claim C6. On a submitted form, once the upload (if there is one) has been opened as an
  image and written under \<^verbatim>\<open>./tmp\<close>: when its width and height are both at most 1408,
  exactly one request is sent to the service and no error message is shown; when its
  width or height exceeds 1408, no request is sent and the size message is shown; when no
  image is uploaded, no request is sent and the upload message is shown.
\<close>

theorem main_validates_before_calling:
  assumes "submitted fm"
  shows "(img fm = Some up \<longrightarrow> image_open env (upload_value up) = Inr image_0 \<longrightarrow>
            file_write env (''./tmp/'' @ upload_name up) (upload_value up) (files w) =
              (None, (files w)(''./tmp/'' @ upload_name up \<mapsto> upload_value up)) \<longrightarrow>
            width_of env image_0 \<le> 1408 \<longrightarrow> height_of env image_0 \<le> 1408 \<longrightarrow>
            requests (snd (main env w fm)) =
              requests w @ [json_dumps env (outpainting_request (b64encode (upload_value up))
                 (form_mask_prompt fm) (form_positive_prompt fm) (form_negative_prompt fm)
                 (form_outpainting_mode fm) (form_cfg_scale fm) (form_seed fm))]
          \<and> (\<forall>m. StError m \<in> set (ui (snd (main env w fm))) \<longrightarrow> StError m \<in> set (ui w)))
       \<and> (img fm = Some up \<longrightarrow> image_open env (upload_value up) = Inr image_0 \<longrightarrow>
            file_write env (''./tmp/'' @ upload_name up) (upload_value up) (files w) =
              (None, (files w)(''./tmp/'' @ upload_name up \<mapsto> upload_value up)) \<longrightarrow>
            (height_of env image_0 > 1408 \<or> width_of env image_0 > 1408) \<longrightarrow>
            main env w fm =
              (Inr (),
               w\<lparr>files := (files w)(''./tmp/'' @ upload_name up \<mapsto> upload_value up),
                 ui := ui w @ [UploadPreview (upload_name up),
                   StError ''Please upload an image with height and width less than or equal to 1408 pixels.'']\<rparr>))
       \<and> (img fm = None \<longrightarrow>
            main env w fm =
              (Inr (), w\<lparr>ui := ui w @ [StError ''Please upload an image file.'']\<rparr>))"
proof (intro conjI impI)
  assume up: "img fm = Some up" and op: "image_open env (upload_value up) = Inr image_0"
    and wr: "file_write env (''./tmp/'' @ upload_name up) (upload_value up) (files w) =
              (None, (files w)(''./tmp/'' @ upload_name up \<mapsto> upload_value up))"
    and wd: "width_of env image_0 \<le> 1408" and ht: "height_of env image_0 \<le> 1408"
  let ?path = "''./tmp/'' @ upload_name up"
  let ?w1 = "w\<lparr>ui := ui w @ [UploadPreview (upload_name up)],
               files := (files w)(?path \<mapsto> upload_value up)\<rparr>"
  let ?p = "prepare_outpainting_request_with_mask_prompt env ?w1 ?path
              (form_mask_prompt fm) (form_positive_prompt fm) (form_negative_prompt fm)
              (form_outpainting_mode fm) (form_cfg_scale fm) (form_seed fm)"
  have f: "files ?w1 ?path = Some (upload_value up)" by simp
  have rq: "requests (snd ?p) = requests w @ [json_dumps env (outpainting_request
              (b64encode (upload_value up)) (form_mask_prompt fm) (form_positive_prompt fm)
              (form_negative_prompt fm) (form_outpainting_mode fm) (form_cfg_scale fm)
              (form_seed fm))]"
    using requests_prepare [OF f] by simp
  have u: "ui (snd ?p) = ui w @ [UploadPreview (upload_name up)]"
    using ui_prepare [of env ?w1 ?path] by simp
  obtain r w2 where p: "?p = (r, w2)" by (cases ?p)
  from rq u p have rq2: "requests w2 = requests w @ [json_dumps env (outpainting_request
              (b64encode (upload_value up)) (form_mask_prompt fm) (form_positive_prompt fm)
              (form_negative_prompt fm) (form_outpainting_mode fm) (form_cfg_scale fm)
              (form_seed fm))]"
    and u2: "ui w2 = ui w @ [UploadPreview (upload_name up)]" by simp_all
  show "requests (snd (main env w fm)) =
              requests w @ [json_dumps env (outpainting_request (b64encode (upload_value up))
                 (form_mask_prompt fm) (form_positive_prompt fm) (form_negative_prompt fm)
                 (form_outpainting_mode fm) (form_cfg_scale fm) (form_seed fm))]"
    using assms up op wr wd ht p rq2
    by (auto simp: main_def Let_def split: sum.splits)
  show "\<forall>m. StError m \<in> set (ui (snd (main env w fm))) \<longrightarrow> StError m \<in> set (ui w)"
    using assms up op wr wd ht p u2
    by (auto simp: main_def Let_def split: sum.splits)
next
  assume "img fm = Some up" and "image_open env (upload_value up) = Inr image_0"
    and "file_write env (''./tmp/'' @ upload_name up) (upload_value up) (files w) =
              (None, (files w)(''./tmp/'' @ upload_name up \<mapsto> upload_value up))"
    and "height_of env image_0 > 1408 \<or> width_of env image_0 > 1408"
  then show "main env w fm =
              (Inr (),
               w\<lparr>files := (files w)(''./tmp/'' @ upload_name up \<mapsto> upload_value up),
                 ui := ui w @ [UploadPreview (upload_name up),
                   StError ''Please upload an image with height and width less than or equal to 1408 pixels.'']\<rparr>)"
    using assms by (auto simp: main_def Let_def)
next
  assume "img fm = None"
  then show "main env w fm =
              (Inr (), w\<lparr>ui := ui w @ [StError ''Please upload an image file.'']\<rparr>)"
    using assms by (simp add: main_def Let_def)
qed

theorem main_validates_before_calling_witness:
  "requests (snd (main (sample_env (Inl (ClientError ''connection refused'')) 1408 1408)
                    empty_world (sample_form (Some sample_upload)))) = [''{}'']
   \<and> main (sample_env (Inl (ClientError ''connection refused'')) 1409 1408) empty_world
        (sample_form (Some sample_upload))
     = (Inr (),
        empty_world\<lparr>files := (files empty_world)(''./tmp/burger.jpg'' \<mapsto> [104, 105]),
          ui := ui empty_world @ [UploadPreview ''burger.jpg'',
            StError ''Please upload an image with height and width less than or equal to 1408 pixels.'']\<rparr>)
   \<and> main (sample_env (Inl (ClientError ''connection refused'')) 1408 1408) empty_world
        (sample_form None)
     = (Inr (), empty_world\<lparr>ui := ui empty_world @ [StError ''Please upload an image file.'']\<rparr>)"
proof -
  let ?fits = "sample_env (Inl (ClientError ''connection refused'')) 1408 1408"
  let ?wide = "sample_env (Inl (ClientError ''connection refused'')) 1409 1408"
  have sub: "submitted (sample_form up)" for up
    by (simp add: sample_form_def)
  have up: "img (sample_form (Some sample_upload)) = Some sample_upload"
    by (simp add: sample_form_def)
  have none: "img (sample_form None) = None"
    by (simp add: sample_form_def)
  have op: "image_open (sample_env response width height) (upload_value sample_upload)
              = Inr [104, 105]" for response width height
    by (simp add: sample_env_def sample_upload_def)
  have wr: "file_write (sample_env response width height) (''./tmp/'' @ upload_name sample_upload)
              (upload_value sample_upload) (files empty_world)
            = (None, (files empty_world)(''./tmp/'' @ upload_name sample_upload
                                          \<mapsto> upload_value sample_upload))"
    for response width height
    by (simp add: sample_env_def sample_upload_def)
  have w1: "width_of ?fits [104, 105] \<le> 1408" and h1: "height_of ?fits [104, 105] \<le> 1408"
    by (simp_all add: sample_env_def)
  have w2: "height_of ?wide [104, 105] > 1408 \<or> width_of ?wide [104, 105] > 1408"
    by (simp add: sample_env_def)
  have nm: "''./tmp/'' @ upload_name sample_upload = ''./tmp/burger.jpg''"
    "upload_name sample_upload = ''burger.jpg''" "upload_value sample_upload = [104, 105]"
    by (simp_all add: sample_upload_def)
  have rq: "requests empty_world @ [''{}''] = [''{}'']"
    by (simp add: empty_world_def)
  note a = main_validates_before_calling [OF sub, of "Some sample_upload" sample_upload ?fits
      "[104, 105]" empty_world, THEN conjunct1, rule_format, OF up op wr w1 h1, THEN conjunct1,
      unfolded sample_json_dumps rq]
  note b = main_validates_before_calling [OF sub, of "Some sample_upload" sample_upload ?wide
      "[104, 105]" empty_world, THEN conjunct2, THEN conjunct1, rule_format, OF up op wr w2,
      unfolded nm]
  note c = main_validates_before_calling [OF sub, of None sample_upload ?fits
      "[104, 105]" empty_world, THEN conjunct2, THEN conjunct2, rule_format, OF none]
  from a b c show ?thesis by simp
qed

end
